theory Spec2Isabelle
  imports Main "HOL-Library.AList" "HOL-Library.Word"
begin

section \<open>Data model of index.ts\<close>

text \<open>
  Paths, error messages and file contents. A thrown error is represented by its
  \<^verbatim>\<open>message\<close>, the only part of it the code reads. JavaScript numbers that hold pixel
  widths, quality levels and millisecond timestamps are modelled as integers.
\<close>

type_synonym path = string
type_synonym error = string
type_synonym buffer = "8 word list"

text \<open>\<^verbatim>\<open>fs.Stats\<close>: \<^verbatim>\<open>mtime.getTime()\<close> and \<^verbatim>\<open>size\<close>.\<close>

record Stats =
  mtime :: int
  st_size :: nat

text \<open>The part of sharp's metadata the code reads; both fields are optional there.\<close>

record Metadata =
  meta_width :: "int option"
  meta_height :: "int option"

record CacheEntry =
  inputPath :: string
  inputMtime :: int
  settingsHash :: string
  outputFiles :: "string list"
  timestamp :: int

text \<open>
  \<^verbatim>\<open>ImgxCache\<close> and \<^verbatim>\<open>ImageManifest\<close> are JavaScript objects used as dictionaries. They are
  association lists here: \<^const>\<open>map_of\<close> reads a key, \<^const>\<open>AList.update\<close> assigns one
  (in place when the key is present, at the end otherwise, which is the key order of
  \<^verbatim>\<open>Object.keys\<close>).
\<close>

type_synonym ImgxCache = "(string \<times> CacheEntry) list"

text \<open>
  \<^verbatim>\<open>ImageManifestEntry\<close>; the fields \<^verbatim>\<open>width\<close>, \<^verbatim>\<open>height\<close> and \<^verbatim>\<open>format\<close> carry the
  prefix \<open>entry_\<close> to keep them apart from the options of the same name.
\<close>

record ImageManifestEntry =
  src :: string
  entry_width :: int
  entry_height :: int
  entry_format :: string
  bytes :: nat
  originalFile :: string

type_synonym ImageManifest = "(string \<times> ImageManifestEntry list) list"

datatype format = webp | avif | jpeg

datatype cacheFiles = CacheOff | CacheFiles int

text \<open>
  \<^verbatim>\<open>ImgxOptions\<close>: an optional field that is \<^verbatim>\<open>undefined\<close> is \<^const>\<open>None\<close>. The field
  \<^verbatim>\<open>output\<close> is \<open>outputDir\<close> here (\<open>output\<close> is a keyword of Isabelle).
\<close>

record ImgxOptions =
  input :: string
  outputDir :: string
  width :: "int option"
  height :: "int option"
  sizes :: "int list option"
  withoutEnlargement :: "bool option"
  formats :: "format list option"
  suffix :: "string option"
  quality :: "int option"
  effort :: "int option"
  concurrency :: "int option"
  sharpCacheFiles :: "cacheFiles option"
  pattern :: "string list option"
  stripMetadata :: "bool option"
  verbose :: "bool option"
  quiet :: "bool option"
  force :: "bool option"
  dryRun :: "bool option"

text \<open>The result of \<^verbatim>\<open>imgx\<close>; an element of \<^verbatim>\<open>files\<close> is the pair \<^verbatim>\<open>(in, out)\<close>.\<close>

record ImgxResult =
  processed :: nat
  files :: "(string \<times> string list) list"
  skipped :: "(string \<times> string) list"
  cached :: "(string \<times> string) list"
  totalFound :: nat
  manifest :: "ImageManifest option"

section \<open>The platform: Node, sharp, globby and p-limit\<close>

text \<open>
  One sharp pipeline, as \<^verbatim>\<open>imgx\<close> builds it before \<^verbatim>\<open>toBuffer()\<close>: the input, whether
  metadata is stripped, the \<^verbatim>\<open>resize\<close> arguments and the encoder with its options.
\<close>

datatype encoder = WebpEncoder int int | AvifEncoder int int | JpegEncoder int

record SharpJob =
  job_input :: path
  job_strip :: bool
  job_width :: int
  job_height :: "int option"
  job_withoutEnlargement :: bool
  job_encoder :: encoder

text \<open>What \<^verbatim>\<open>fs.writeFile\<close> is given: encoded bytes, or the JSON text of a cache or manifest.\<close>

datatype payload = Bytes buffer | CacheJSON ImgxCache | ManifestJSON ImageManifest

text \<open>
  The library calls of \<^verbatim>\<open>imgx\<close> are parameters of the model, over a state \<open>'w\<close> of the
  outside world (the file system and the clock). A call that can throw returns the
  message on the left; a call that changes the world returns the new world. The digest
  \<^verbatim>\<open>sha1\<close> has its 160 bits in its type; \<open>toBuffer\<close> is a whole sharp pipeline, from the
  constructor to \<^verbatim>\<open>toBuffer()\<close>; \<open>pLimit\<close> is the argument check of \<^verbatim>\<open>pLimit(concurrency)\<close>,
  the message when it throws; \<open>readCacheFile\<close> is \<^verbatim>\<open>fs.readFile\<close> followed by \<^verbatim>\<open>JSON.parse\<close>.
\<close>

record 'w node =
  cwd :: path
  cpus :: int
  relative :: "path \<Rightarrow> path \<Rightarrow> path"
  join :: "path \<Rightarrow> path \<Rightarrow> path"
  dirname :: "path \<Rightarrow> path"
  extname :: "path \<Rightarrow> string"
  sha1 :: "string \<Rightarrow> 160 word"
  globby :: "string list \<Rightarrow> path \<Rightarrow> 'w \<Rightarrow> error + path list"
  readCacheFile :: "path \<Rightarrow> 'w \<Rightarrow> error + ImgxCache"
  stat :: "path \<Rightarrow> 'w \<Rightarrow> error + Stats"
  metadataOfFile :: "path \<Rightarrow> 'w \<Rightarrow> error + Metadata"
  metadataOfBuffer :: "buffer \<Rightarrow> 'w \<Rightarrow> error + Metadata"
  toBuffer :: "SharpJob \<Rightarrow> 'w \<Rightarrow> error + buffer"
  mkdir :: "path \<Rightarrow> 'w \<Rightarrow> error option \<times> 'w"
  writeFile :: "path \<Rightarrow> payload \<Rightarrow> 'w \<Rightarrow> error option \<times> 'w"
  now :: "'w \<Rightarrow> int"
  pLimit :: "int \<Rightarrow> error option"

section \<open>Settings fingerprint\<close>

text \<open>
  \<^verbatim>\<open>JSON.stringify\<close> on the values a settings object holds. Integers print in decimal
  (as JavaScript prints them below \<open>10\<^sup>2\<^sup>1\<close>); a string is quoted with the escapes of
  ECMAScript's \<^verbatim>\<open>QuoteJSONString\<close>; a property whose value is \<^verbatim>\<open>undefined\<close> is left out.
\<close>

definition hexDigit :: "nat \<Rightarrow> char" where
  "hexDigit n = ''0123456789abcdef'' ! (n mod 16)"

fun decimal :: "nat \<Rightarrow> string" where
  "decimal n = (if n < 10 then [hexDigit n] else decimal (n div 10) @ [hexDigit (n mod 10)])"

declare decimal.simps [simp del]

definition numberToString :: "int \<Rightarrow> string" where
  "numberToString n = (if n < 0 then CHR ''-'' # decimal (nat (- n)) else decimal (nat n))"

definition quoteChar :: "char \<Rightarrow> string" where
  "quoteChar c =
     (if c = CHR 0x22 then [CHR 0x5C, CHR 0x22]
      else if c = CHR 0x5C then [CHR 0x5C, CHR 0x5C]
      else if c = CHR 0x08 then [CHR 0x5C, CHR ''b'']
      else if c = CHR 0x09 then [CHR 0x5C, CHR ''t'']
      else if c = CHR 0x0A then [CHR 0x5C, CHR ''n'']
      else if c = CHR 0x0C then [CHR 0x5C, CHR ''f'']
      else if c = CHR 0x0D then [CHR 0x5C, CHR ''r'']
      else if (of_char c :: nat) < 32 then
        [CHR 0x5C, CHR ''u'', CHR ''0'', CHR ''0'',
         hexDigit (of_char c div 16), hexDigit (of_char c mod 16)]
      else [c])"

definition quoteJSONString :: "string \<Rightarrow> string" where
  "quoteJSONString s = CHR 0x22 # concat (map quoteChar s) @ [CHR 0x22]"

fun joinWith :: "string \<Rightarrow> string list \<Rightarrow> string" where
  "joinWith sep [] = []"
| "joinWith sep [x] = x"
| "joinWith sep (x # y # ys) = x @ sep @ joinWith sep (y # ys)"

definition stringifyArray :: "string list \<Rightarrow> string" where
  "stringifyArray items = ''['' @ joinWith '','' items @ '']''"

definition stringifyBool :: "bool \<Rightarrow> string" where
  "stringifyBool b = (if b then ''true'' else ''false'')"

definition formatName :: "format \<Rightarrow> string" where
  "formatName f = (case f of webp \<Rightarrow> ''webp'' | avif \<Rightarrow> ''avif'' | jpeg \<Rightarrow> ''jpeg'')"

text \<open>The serialization of one optional field: \<^const>\<open>None\<close> for \<^verbatim>\<open>undefined\<close>.\<close>

definition serNumber :: "int option \<Rightarrow> string option" where
  "serNumber v = map_option numberToString v"

definition serNumbers :: "int list option \<Rightarrow> string option" where
  "serNumbers v = map_option (\<lambda>xs. stringifyArray (map numberToString xs)) v"

definition serFormats :: "format list option \<Rightarrow> string option" where
  "serFormats v = map_option (\<lambda>fs. stringifyArray (map (\<lambda>f. quoteJSONString (formatName f)) fs)) v"

definition serString :: "string option \<Rightarrow> string option" where
  "serString v = map_option quoteJSONString v"

definition serBool :: "bool option \<Rightarrow> string option" where
  "serBool v = map_option stringifyBool v"

definition property :: "string \<times> string option \<Rightarrow> string option" where
  "property kv = map_option (\<lambda>s. quoteJSONString (fst kv) @ '':'' @ s) (snd kv)"

definition stringifyObject :: "(string \<times> string option) list \<Rightarrow> string" where
  "stringifyObject props = ''{'' @ joinWith '','' (List.map_filter property props) @ ''}''"

text \<open>The object literal \<^verbatim>\<open>settings\<close> of \<^verbatim>\<open>generateSettingsHash\<close>, serialized.\<close>

definition settingsJSON :: "ImgxOptions \<Rightarrow> string" where
  "settingsJSON opts = stringifyObject
     [(''width'', serNumber (width opts)),
      (''height'', serNumber (height opts)),
      (''sizes'', serNumbers (sizes opts)),
      (''formats'', serFormats (formats opts)),
      (''suffix'', serString (suffix opts)),
      (''quality'', serNumber (quality opts)),
      (''effort'', serNumber (effort opts)),
      (''stripMetadata'', serBool (stripMetadata opts)),
      (''withoutEnlargement'', serBool (withoutEnlargement opts))]"

text \<open>\<^verbatim>\<open>digest("hex")\<close>: forty lower-case hexadecimal digits, most significant first.\<close>

definition hexDigest :: "160 word \<Rightarrow> string" where
  "hexDigest d = map (\<lambda>i. hexDigit (unat (drop_bit (4 * (39 - i)) d))) [0..<40]"

definition generateSettingsHash :: "(string \<Rightarrow> 160 word) \<Rightarrow> ImgxOptions \<Rightarrow> string" where
  "generateSettingsHash digest opts = hexDigest (digest (settingsJSON opts))"

text \<open>
  A digest separates two option records when it does not collide on their serialized
  settings, the idealisation under which a fingerprint is read.
\<close>

definition separates :: "(string \<Rightarrow> 160 word) \<Rightarrow> ImgxOptions \<Rightarrow> ImgxOptions \<Rightarrow> bool" where
  "separates digest a b =
     (settingsJSON a \<noteq> settingsJSON b \<longrightarrow> digest (settingsJSON a) \<noteq> digest (settingsJSON b))"

section \<open>Skip decision\<close>

record SkipResult =
  skip :: bool
  reason :: "string option"

text \<open>
  The loop over \<^verbatim>\<open>outputFiles\<close>: the accumulator is \<^verbatim>\<open>newestOutputMtime\<close>; a failing
  \<^verbatim>\<open>fs.stat\<close> sets \<^verbatim>\<open>allOutputsExist = false\<close> and leaves the loop. In
  \<open>shouldSkipFile\<close> the parameters \<^verbatim>\<open>inputPath\<close>, \<^verbatim>\<open>outputFiles\<close>, \<^verbatim>\<open>settingsHash\<close> and
  \<^verbatim>\<open>force\<close> are \<open>inPath\<close>, \<open>outputs\<close>, \<open>hash\<close> and \<open>forced\<close>: the source's names are the
  fields of the records above. The outer \<^verbatim>\<open>try\<close> catches the \<^verbatim>\<open>fs.stat\<close> of the input.
\<close>

fun scanOutputs :: "'w node \<Rightarrow> 'w \<Rightarrow> path list \<Rightarrow> int \<Rightarrow> bool \<times> int" where
  "scanOutputs api w [] newestOutputMtime = (True, newestOutputMtime)"
| "scanOutputs api w (outputFile # rest) newestOutputMtime =
     (case stat api outputFile w of
        Inl e \<Rightarrow> (False, newestOutputMtime)
      | Inr outputStats \<Rightarrow>
          scanOutputs api w rest (max newestOutputMtime (mtime outputStats)))"

definition shouldSkipFile ::
  "'w node \<Rightarrow> 'w \<Rightarrow> path \<Rightarrow> path list \<Rightarrow> string \<Rightarrow> bool \<Rightarrow> ImgxCache \<Rightarrow> SkipResult" where
  "shouldSkipFile api w inPath outputs hash forced cache =
     (if forced then \<lparr>skip = False, reason = None\<rparr>
      else
        (case stat api inPath w of
           Inl e \<Rightarrow> \<lparr>skip = False, reason = None\<rparr>
         | Inr inputStats \<Rightarrow>
             (case scanOutputs api w outputs 0 of
                (allOutputsExist, newestOutputMtime) \<Rightarrow>
                  if allOutputsExist \<and> newestOutputMtime > mtime inputStats then
                    (case map_of cache (relative api (cwd api) inPath) of
                       Some cacheEntry \<Rightarrow>
                         if settingsHash cacheEntry = hash
                         then \<lparr>skip = True, reason = Some ''cached (up to date)''\<rparr>
                         else \<lparr>skip = True, reason = Some ''output newer than input''\<rparr>
                     | None \<Rightarrow> \<lparr>skip = True, reason = Some ''output newer than input''\<rparr>)
                  else \<lparr>skip = False, reason = None\<rparr>)))"

text \<open>
  The modification times of the expected outputs that exist, for stating the claims
  about their maximum.
\<close>

definition outputMtimes :: "'w node \<Rightarrow> 'w \<Rightarrow> path list \<Rightarrow> int list" where
  "outputMtimes api w outputs =
     List.map_filter (\<lambda>p. case stat api p w of Inl e \<Rightarrow> None | Inr st \<Rightarrow> Some (mtime st)) outputs"

definition outputExists :: "'w node \<Rightarrow> 'w \<Rightarrow> path \<Rightarrow> bool" where
  "outputExists api w p = (case stat api p w of Inl e \<Rightarrow> False | Inr st \<Rightarrow> True)"

section \<open>Strings and JavaScript operators\<close>

text \<open>
  A destructuring default applies to \<^verbatim>\<open>undefined\<close>; the operator \<^verbatim>\<open>||\<close> also replaces
  the empty string and the number zero.
\<close>

definition orDefault :: "'a option \<Rightarrow> 'a \<Rightarrow> 'a" where
  "orDefault v d = (case v of None \<Rightarrow> d | Some x \<Rightarrow> x)"

definition orString :: "string option \<Rightarrow> string \<Rightarrow> string" where
  "orString v d = (case v of None \<Rightarrow> d | Some x \<Rightarrow> if x = [] then d else x)"

definition orNumber :: "int option \<Rightarrow> int \<Rightarrow> int" where
  "orNumber v d = (case v of None \<Rightarrow> d | Some x \<Rightarrow> if x = 0 then d else x)"

text \<open>\<^verbatim>\<open>rel.replace(/\.[^.]+$/, "")\<close>: drops a last extension that is not empty.\<close>

definition stripExtension :: "string \<Rightarrow> string" where
  "stripExtension s =
     (let ext = takeWhile (\<lambda>c. c \<noteq> CHR ''.'') (rev s)
      in if length ext < length s \<and> ext \<noteq> [] then take (length s - length ext - 1) s else s)"

text \<open>\<^verbatim>\<open>str.replace(pat, rep)\<close> with a string pattern: the first occurrence only.\<close>

fun replaceFirst :: "string \<Rightarrow> string \<Rightarrow> string \<Rightarrow> string" where
  "replaceFirst pat rep [] = (if pat = [] then rep else [])"
| "replaceFirst pat rep (c # cs) =
     (if take (length pat) (c # cs) = pat then rep @ drop (length pat) (c # cs)
      else c # replaceFirst pat rep cs)"

text \<open>\<^verbatim>\<open>.replace(/\\/g, "/")\<close>\<close>

definition slashes :: "string \<Rightarrow> string" where
  "slashes s = map (\<lambda>c. if c = CHR 0x5C then CHR ''/'' else c) s"

text \<open>
  \<^verbatim>\<open>outputFile.match(/-(\d+)w\./)\<close>, the first group of the leftmost match, and
  \<^verbatim>\<open>parseInt\<close> on a string of digits.
\<close>

definition isDigit :: "char \<Rightarrow> bool" where
  "isDigit c = (c \<in> set ''0123456789'')"

fun sizeMatch :: "string \<Rightarrow> string option" where
  "sizeMatch [] = None"
| "sizeMatch (c # cs) =
     (if c = CHR ''-'' \<and> takeWhile isDigit cs \<noteq> [] \<and> take 2 (dropWhile isDigit cs) = ''w.''
      then Some (takeWhile isDigit cs)
      else sizeMatch cs)"

definition parseInt :: "string \<Rightarrow> int" where
  "parseInt ds = foldl (\<lambda>n c. 10 * n + (of_char c - 48)) 0 ds"

section \<open>The pipeline\<close>

text \<open>
  The variables of \<^verbatim>\<open>imgx\<close> that the per-file task closes over, after the defaults.
  The task's parameter \<^verbatim>\<open>abs\<close> is \<open>absPath\<close> below (\<open>abs\<close> is the absolute value in HOL).
\<close>

record Ctx =
  ctx_input :: path
  ctx_output :: path
  ctx_sizesToProcess :: "int list"
  ctx_formats :: "format list"
  ctx_suffix :: string
  ctx_height :: "int option"
  ctx_withoutEnlargement :: bool
  ctx_quality :: int
  ctx_effort :: int
  ctx_stripMetadata :: bool
  ctx_force :: bool
  ctx_dryRun :: bool
  ctx_settingsHash :: string

text \<open>
  The state the tasks share: the outside world, the in-memory cache and the arrays
  \<^verbatim>\<open>results\<close>, \<^verbatim>\<open>skippedFiles\<close>, \<^verbatim>\<open>cachedFiles\<close> and the object \<^verbatim>\<open>manifest\<close>
  (\<open>manifestMap\<close>). The field \<open>effects\<close> is not in the source: it logs, in order, every
  call that can change the file system or runs the codec. Console output and the
  progress counter are left out.
\<close>

datatype effect = Mkdir path | ToBuffer SharpJob | WriteFile path payload

record 'w run =
  world :: 'w
  effects :: "effect list"
  cache :: ImgxCache
  results :: "(string \<times> string list) list"
  skippedFiles :: "(string \<times> string) list"
  cachedFiles :: "(string \<times> string) list"
  manifestMap :: ImageManifest

definition doMkdir :: "'w node \<Rightarrow> path \<Rightarrow> 'w run \<Rightarrow> error option \<times> 'w run" where
  "doMkdir api p s =
     (case mkdir api p (world s) of
        (r, w') \<Rightarrow> (r, s\<lparr>world := w', effects := effects s @ [Mkdir p]\<rparr>))"

definition doWriteFile :: "'w node \<Rightarrow> path \<Rightarrow> payload \<Rightarrow> 'w run \<Rightarrow> error option \<times> 'w run" where
  "doWriteFile api p d s =
     (case writeFile api p d (world s) of
        (r, w') \<Rightarrow> (r, s\<lparr>world := w', effects := effects s @ [WriteFile p d]\<rparr>))"

definition doToBuffer :: "'w node \<Rightarrow> SharpJob \<Rightarrow> 'w run \<Rightarrow> (error + buffer) \<times> 'w run" where
  "doToBuffer api job s = (toBuffer api job (world s), s\<lparr>effects := effects s @ [ToBuffer job]\<rparr>)"

definition loadCache :: "'w node \<Rightarrow> path \<Rightarrow> 'w \<Rightarrow> ImgxCache" where
  "loadCache api cachePath w = (case readCacheFile api cachePath w of Inl e \<Rightarrow> [] | Inr c \<Rightarrow> c)"

definition saveCache :: "'w node \<Rightarrow> path \<Rightarrow> ImgxCache \<Rightarrow> 'w run \<Rightarrow> error option \<times> 'w run" where
  "saveCache api cachePath c s = doWriteFile api cachePath (CacheJSON c) s"

text \<open>The output path of one size and format, and the list \<^verbatim>\<open>allOutputs\<close>.\<close>

definition sizeSuffixOf :: "Ctx \<Rightarrow> int \<Rightarrow> string" where
  "sizeSuffixOf c sz = replaceFirst ''{w}'' (numberToString sz) (ctx_suffix c)"

definition outPathOf :: "string \<Rightarrow> string \<Rightarrow> format \<Rightarrow> path" where
  "outPathOf outBase sizeSuffix fmt = outBase @ ''-'' @ sizeSuffix @ ''.'' @ formatName fmt"

definition expectedOutputs :: "Ctx \<Rightarrow> string \<Rightarrow> path list" where
  "expectedOutputs c outBase =
     concat (map (\<lambda>sz. map (\<lambda>fmt. outPathOf outBase (sizeSuffixOf c sz) fmt) (ctx_formats c))
                 (ctx_sizesToProcess c))"

definition outBaseOf :: "'w node \<Rightarrow> Ctx \<Rightarrow> path \<Rightarrow> string" where
  "outBaseOf api c absPath = join api (ctx_output c) (stripExtension (relative api (ctx_input c) absPath))"

text \<open>
  The skip branch: a manifest entry from an output file of the cache record, and the
  loop over \<^verbatim>\<open>cacheEntry.outputFiles\<close>, which a failing read leaves by \<^verbatim>\<open>break\<close>.
\<close>

definition cachedEntry ::
  "'w node \<Rightarrow> 'w \<Rightarrow> path \<Rightarrow> string \<Rightarrow> path \<Rightarrow> error + ImageManifestEntry" where
  "cachedEntry api w out rel outputFile =
     (case stat api outputFile w of
        Inl e \<Rightarrow> Inl e
      | Inr stats \<Rightarrow>
          (case metadataOfFile api outputFile w of
             Inl e \<Rightarrow> Inl e
           | Inr md \<Rightarrow>
               Inr \<lparr>src = slashes (relative api out outputFile),
                    entry_width =
                      (case sizeMatch outputFile of
                         Some ds \<Rightarrow> parseInt ds
                       | None \<Rightarrow> orNumber (meta_width md) 0),
                    entry_height = orNumber (meta_height md) 0,
                    entry_format = drop 1 (extname api outputFile),
                    bytes = st_size stats,
                    originalFile = rel\<rparr>))"

fun reconstruct ::
  "'w node \<Rightarrow> 'w \<Rightarrow> path \<Rightarrow> string \<Rightarrow> path list \<Rightarrow> ImageManifestEntry list" where
  "reconstruct api w out rel [] = []"
| "reconstruct api w out rel (outputFile # rest) =
     (case cachedEntry api w out rel outputFile of
        Inl e \<Rightarrow> []
      | Inr entry \<Rightarrow> entry # reconstruct api w out rel rest)"

text \<open>The process branch: the sharp pipeline of one size and format, and the two loops.\<close>

definition sharpJob :: "Ctx \<Rightarrow> path \<Rightarrow> int \<Rightarrow> format \<Rightarrow> SharpJob" where
  "sharpJob c absPath sz fmt =
     \<lparr>job_input = absPath,
      job_strip = ctx_stripMetadata c,
      job_width = sz,
      job_height = ctx_height c,
      job_withoutEnlargement = ctx_withoutEnlargement c,
      job_encoder =
        (case fmt of
           webp \<Rightarrow> WebpEncoder (ctx_quality c) (ctx_effort c)
         | avif \<Rightarrow> AvifEncoder (min (ctx_quality c) 60) (min (ctx_effort c) 6)
         | jpeg \<Rightarrow> JpegEncoder (ctx_quality c))\<rparr>"

fun processFormats ::
  "'w node \<Rightarrow> Ctx \<Rightarrow> path \<Rightarrow> string \<Rightarrow> string \<Rightarrow> int \<Rightarrow> string \<Rightarrow> format list \<Rightarrow>
   ImageManifestEntry list \<Rightarrow> 'w run \<Rightarrow> (error + ImageManifestEntry list) \<times> 'w run" where
  "processFormats api c absPath rel outBase sz sizeSuffix [] manifestEntries s = (Inr manifestEntries, s)"
| "processFormats api c absPath rel outBase sz sizeSuffix (fmt # fmts) manifestEntries s =
     (let outPath = outPathOf outBase sizeSuffix fmt;
          outDir = dirname api outPath
      in case doMkdir api outDir s of
           (Some e, s1) \<Rightarrow> (Inl e, s1)
         | (None, s1) \<Rightarrow>
             if ctx_dryRun c
             then processFormats api c absPath rel outBase sz sizeSuffix fmts manifestEntries s1
             else
               (case doToBuffer api (sharpJob c absPath sz fmt) s1 of
                  (Inl e, s2) \<Rightarrow> (Inl e, s2)
                | (Inr buf, s2) \<Rightarrow>
                    (case doWriteFile api outPath (Bytes buf) s2 of
                       (Some e, s3) \<Rightarrow> (Inl e, s3)
                     | (None, s3) \<Rightarrow>
                         (case metadataOfBuffer api buf (world s3) of
                            Inl e \<Rightarrow> (Inl e, s3)
                          | Inr md \<Rightarrow>
                              processFormats api c absPath rel outBase sz sizeSuffix fmts
                                (manifestEntries @
                                 [\<lparr>src = slashes (relative api (ctx_output c) outPath),
                                   entry_width = orNumber (meta_width md) sz,
                                   entry_height = orNumber (meta_height md) 0,
                                   entry_format = formatName fmt,
                                   bytes = length buf,
                                   originalFile = rel\<rparr>])
                                s3))))"

fun processSizes ::
  "'w node \<Rightarrow> Ctx \<Rightarrow> path \<Rightarrow> string \<Rightarrow> string \<Rightarrow> int list \<Rightarrow>
   ImageManifestEntry list \<Rightarrow> 'w run \<Rightarrow> (error + ImageManifestEntry list) \<times> 'w run" where
  "processSizes api c absPath rel outBase [] manifestEntries s = (Inr manifestEntries, s)"
| "processSizes api c absPath rel outBase (sz # rest) manifestEntries s =
     (case processFormats api c absPath rel outBase sz (sizeSuffixOf c sz) (ctx_formats c)
             manifestEntries s of
        (Inl e, s1) \<Rightarrow> (Inl e, s1)
      | (Inr manifestEntries1, s1) \<Rightarrow> processSizes api c absPath rel outBase rest manifestEntries1 s1)"

text \<open>
  The body of the \<^verbatim>\<open>try\<close> block of one task: \<^const>\<open>None\<close> when it completes (also by the
  \<^verbatim>\<open>return\<close> of the skip branch), the message when it throws. The state it returns holds
  what had been done before the throw.
\<close>

definition processFile :: "'w node \<Rightarrow> Ctx \<Rightarrow> path \<Rightarrow> 'w run \<Rightarrow> error option \<times> 'w run" where
  "processFile api c absPath s =
     (let rel = relative api (ctx_input c) absPath;
          outBase = outBaseOf api c absPath;
          allOutputs = expectedOutputs c outBase;
          skipCheck = shouldSkipFile api (world s) absPath allOutputs (ctx_settingsHash c)
                        (ctx_force c) (cache s)
      in if skip skipCheck then
           (let manifestEntries =
                  (case map_of (cache s) (relative api (cwd api) absPath) of
                     None \<Rightarrow> []
                   | Some cacheEntry \<Rightarrow>
                       reconstruct api (world s) (ctx_output c) rel (outputFiles cacheEntry))
            in (None,
                s\<lparr>cachedFiles := cachedFiles s @ [(rel, orString (reason skipCheck) ''cached'')],
                  results := results s @ [(rel, allOutputs)],
                  manifestMap := AList.update rel manifestEntries (manifestMap s)\<rparr>))
         else
           (case processSizes api c absPath rel outBase (ctx_sizesToProcess c) [] s of
              (Inl e, s1) \<Rightarrow> (Some e, s1)
            | (Inr manifestEntries, s1) \<Rightarrow>
                (let s2 = s1\<lparr>results := results s1 @ [(rel, allOutputs)],
                             manifestMap := AList.update rel manifestEntries (manifestMap s1)\<rparr>
                 in if ctx_dryRun c then (None, s2)
                    else
                      (case stat api absPath (world s2) of
                         Inl e \<Rightarrow> (Some e, s2)
                       | Inr inputStats \<Rightarrow>
                           (None,
                            s2\<lparr>cache :=
                                 AList.update (relative api (cwd api) absPath)
                                   \<lparr>inputPath = absPath,
                                    inputMtime = mtime inputStats,
                                    settingsHash = ctx_settingsHash c,
                                    outputFiles = allOutputs,
                                    timestamp = now api (world s2)\<rparr>
                                   (cache s2)\<rparr>)))))"

text \<open>The task with its \<^verbatim>\<open>catch\<close>: \<^verbatim>\<open>error.message || "Unknown error"\<close>.\<close>

definition task :: "'w node \<Rightarrow> Ctx \<Rightarrow> path \<Rightarrow> 'w run \<Rightarrow> 'w run" where
  "task api c absPath s =
     (case processFile api c absPath s of
        (None, s1) \<Rightarrow> s1
      | (Some e, s1) \<Rightarrow>
          s1\<lparr>skippedFiles :=
               skippedFiles s1 @ [(relative api (ctx_input c) absPath, orString (Some e) ''Unknown error'')]\<rparr>)"

text \<open>
  \<^verbatim>\<open>Promise.all(files.map(abs => limit(task)))\<close> in the schedule in which the tasks run
  one after the other, in the order of \<^verbatim>\<open>files\<close> (the schedule of a limit of one). The
  function \<open>thrown\<close> is not in the source: it lists, for the same schedule, the inputs
  whose \<^verbatim>\<open>try\<close> block throws, with the message.
\<close>

fun runTasks :: "'w node \<Rightarrow> Ctx \<Rightarrow> path list \<Rightarrow> 'w run \<Rightarrow> 'w run" where
  "runTasks api c [] s = s"
| "runTasks api c (absPath # rest) s = runTasks api c rest (task api c absPath s)"

fun thrown :: "'w node \<Rightarrow> Ctx \<Rightarrow> path list \<Rightarrow> 'w run \<Rightarrow> (path \<times> error) list" where
  "thrown api c [] s = []"
| "thrown api c (absPath # rest) s =
     (case fst (processFile api c absPath s) of None \<Rightarrow> [] | Some e \<Rightarrow> [(absPath, e)])
     @ thrown api c rest (task api c absPath s)"

text \<open>
  \<^verbatim>\<open>imgx\<close>. The defaults, the context of the tasks and the state they start from are
  definitions of their own, so that theorems can name them.
\<close>

definition imgxContext :: "'w node \<Rightarrow> ImgxOptions \<Rightarrow> Ctx" where
  "imgxContext api opts =
     \<lparr>ctx_input = input opts,
      ctx_output = outputDir opts,
      ctx_sizesToProcess = orDefault (sizes opts) [orDefault (width opts) 1000],
      ctx_formats = orDefault (formats opts) [webp],
      ctx_suffix = orDefault (suffix opts) ''{w}w'',
      ctx_height = height opts,
      ctx_withoutEnlargement = orDefault (withoutEnlargement opts) True,
      ctx_quality = orDefault (quality opts) 78,
      ctx_effort = orDefault (effort opts) 6,
      ctx_stripMetadata = orDefault (stripMetadata opts) True,
      ctx_force = orDefault (force opts) False,
      ctx_dryRun = orDefault (dryRun opts) False,
      ctx_settingsHash = generateSettingsHash (sha1 api) opts\<rparr>"

definition cachePathOf :: "'w node \<Rightarrow> ImgxOptions \<Rightarrow> path" where
  "cachePathOf api opts = join api (outputDir opts) ''.imgx-cache.json''"

definition manifestPathOf :: "'w node \<Rightarrow> ImgxOptions \<Rightarrow> path" where
  "manifestPathOf api opts = join api (outputDir opts) ''imgx-manifest.json''"

definition imgxStart :: "'w node \<Rightarrow> ImgxOptions \<Rightarrow> 'w \<Rightarrow> 'w run" where
  "imgxStart api opts w =
     \<lparr>world = w, effects = [], cache = loadCache api (cachePathOf api opts) w,
      results = [], skippedFiles = [], cachedFiles = [], manifestMap = []\<rparr>"

definition enumerate :: "'w node \<Rightarrow> ImgxOptions \<Rightarrow> 'w \<Rightarrow> error + path list" where
  "enumerate api opts w =
     globby api (orDefault (pattern opts) [''**/*.{jpg,jpeg,JPG,JPEG,png}'']) (input opts) w"

definition summary :: "path list \<Rightarrow> 'w run \<Rightarrow> ImgxResult" where
  "summary found s =
     \<lparr>processed = length (results s),
      files = results s,
      skipped = skippedFiles s,
      cached = cachedFiles s,
      totalFound = length found,
      manifest = (if manifestMap s \<noteq> [] then Some (manifestMap s) else None)\<rparr>"

definition persist :: "'w node \<Rightarrow> ImgxOptions \<Rightarrow> 'w run \<Rightarrow> error option \<times> 'w run" where
  "persist api opts s =
     (let dry = orDefault (dryRun opts) False
      in case (if \<not> dry then saveCache api (cachePathOf api opts) (cache s) s else (None, s)) of
           (Some e, s1) \<Rightarrow> (Some e, s1)
         | (None, s1) \<Rightarrow>
             if manifestMap s1 \<noteq> [] \<and> \<not> dry
             then doWriteFile api (manifestPathOf api opts) (ManifestJSON (manifestMap s1)) s1
             else (None, s1))"

definition imgx :: "'w node \<Rightarrow> ImgxOptions \<Rightarrow> 'w \<Rightarrow> (error + ImgxResult) \<times> 'w \<times> effect list" where
  "imgx api opts w =
     (case enumerate api opts w of
        Inl e \<Rightarrow> (Inl e, w, [])
      | Inr found \<Rightarrow>
          if found = [] then
            (Inr \<lparr>processed = 0, files = [], skipped = [], cached = [], totalFound = 0,
                  manifest = None\<rparr>, w, [])
          else
            (case pLimit api (orDefault (concurrency opts) (cpus api)) of
               Some e \<Rightarrow> (Inl e, w, [])
             | None \<Rightarrow>
                 (case persist api opts
                         (runTasks api (imgxContext api opts) found (imgxStart api opts w)) of
                    (Some e, s) \<Rightarrow> (Inl e, world s, effects s)
                  | (None, s) \<Rightarrow> (Inr (summary found s), world s, effects s))))"

text \<open>The inputs whose task throws in a run of \<^verbatim>\<open>imgx\<close>, with the messages.\<close>

definition imgxThrown :: "'w node \<Rightarrow> ImgxOptions \<Rightarrow> 'w \<Rightarrow> (path \<times> error) list" where
  "imgxThrown api opts w =
     (case enumerate api opts w of
        Inl e \<Rightarrow> []
      | Inr found \<Rightarrow> thrown api (imgxContext api opts) found (imgxStart api opts w))"

section \<open>A platform to run the model on\<close>

text \<open>
  A small in-memory platform, for evaluating the definitions on concrete inputs. A file
  has its \<^verbatim>\<open>Stats\<close> and, when sharp can read it, its metadata; \<open>d_glob\<close> is the list that
  \<^verbatim>\<open>globby\<close> returns; sharp fails on the inputs listed in \<open>d_broken\<close>; every write fails
  when \<open>d_readOnly\<close> is set. A write stamps the file with the clock and advances it.
  Paths are POSIX paths without \<^verbatim>\<open>.\<close> and \<^verbatim>\<open>..\<close> segments.
\<close>

record demo =
  d_glob :: "path list"
  d_files :: "(path \<times> Stats) list"
  d_meta :: "(path \<times> Metadata) list"
  d_dirs :: "path list"
  d_cacheFile :: "ImgxCache option"
  d_clock :: int
  d_broken :: "path list"
  d_readOnly :: bool

definition demoRelative :: "path \<Rightarrow> path \<Rightarrow> path" where
  "demoRelative from to =
     (if take (length from + 1) to = from @ ''/'' then drop (length from + 1) to else to)"

definition demoDirname :: "path \<Rightarrow> path" where
  "demoDirname p = take (length p - length (takeWhile (\<lambda>c. c \<noteq> CHR ''/'') (rev p)) - 1) p"

definition demoExtname :: "path \<Rightarrow> string" where
  "demoExtname p =
     (let e = takeWhile (\<lambda>c. c \<noteq> CHR ''.'') (rev p)
      in if length e < length p then CHR ''.'' # rev e else [])"

definition payloadSize :: "payload \<Rightarrow> nat" where
  "payloadSize d = (case d of Bytes b \<Rightarrow> length b | CacheJSON c \<Rightarrow> length c | ManifestJSON m \<Rightarrow> length m)"

text \<open>A stand-in for SHA-1 on this platform: the length of the text.\<close>

definition demoDigest :: "string \<Rightarrow> 160 word" where
  "demoDigest s = word_of_nat (length s)"

definition demoNode :: "demo node" where
  "demoNode =
     \<lparr>cwd = ''/work'',
      cpus = 4,
      relative = demoRelative,
      join = (\<lambda>a b. a @ ''/'' @ b),
      dirname = demoDirname,
      extname = demoExtname,
      sha1 = demoDigest,
      globby = (\<lambda>patterns dir w. Inr (d_glob w)),
      readCacheFile =
        (\<lambda>p w. case d_cacheFile w of None \<Rightarrow> Inl ''ENOENT: no such file or directory'' | Some c \<Rightarrow> Inr c),
      stat =
        (\<lambda>p w. case map_of (d_files w) p of
                  None \<Rightarrow> Inl ''ENOENT: no such file or directory''
                | Some st \<Rightarrow> Inr st),
      metadataOfFile =
        (\<lambda>p w. case map_of (d_meta w) p of
                  None \<Rightarrow> Inl ''Input file contains unsupported image format''
                | Some md \<Rightarrow> Inr md),
      metadataOfBuffer = (\<lambda>b w. Inr \<lparr>meta_width = Some 640, meta_height = Some 480\<rparr>),
      toBuffer =
        (\<lambda>job w. if job_input job \<in> set (d_broken w)
                  then Inl ''Input file contains unsupported image format''
                  else Inr [1, 2, 3]),
      mkdir = (\<lambda>p w. (None, w\<lparr>d_dirs := List.insert p (d_dirs w)\<rparr>)),
      writeFile =
        (\<lambda>p d w. if d_readOnly w then (Some ''EACCES: permission denied'', w)
                  else (None,
                        w\<lparr>d_files := AList.update p \<lparr>mtime = d_clock w, st_size = payloadSize d\<rparr> (d_files w),
                          d_clock := d_clock w + 1\<rparr>)),
      now = d_clock,
      pLimit = (\<lambda>n. if n < 1 then Some ''Expected concurrency to be a number from 1 and up'' else None)\<rparr>"

definition demoOptions :: ImgxOptions where
  "demoOptions =
     \<lparr>input = ''/work/in'', outputDir = ''/work/out'', width = None, height = None, sizes = None,
      withoutEnlargement = None, formats = None, suffix = None, quality = None, effort = None,
      concurrency = None, sharpCacheFiles = None, pattern = None, stripMetadata = None,
      verbose = None, quiet = None, force = None, dryRun = None\<rparr>"

definition fullOptions :: ImgxOptions where
  "fullOptions =
     demoOptions\<lparr>width := Some 1000, height := Some 800, sizes := Some [640],
       formats := Some [webp], suffix := Some ''{w}w'', quality := Some 78, effort := Some 6,
       stripMetadata := Some True, withoutEnlargement := Some True\<rparr>"

definition demoWorld :: demo where
  "demoWorld =
     \<lparr>d_glob = [''/work/in/a.jpg''],
      d_files = [(''/work/in/a.jpg'', \<lparr>mtime = 1000, st_size = 5000\<rparr>)],
      d_meta = [(''/work/in/a.jpg'', \<lparr>meta_width = Some 2000, meta_height = Some 1500\<rparr>)],
      d_dirs = [''/work'', ''/work/in'', ''/work/out''],
      d_cacheFile = None,
      d_clock = 2000,
      d_broken = [],
      d_readOnly = False\<rparr>"

text \<open>
  Worlds for the skip decision: an input with an output written after it, and the same
  two files with modification times before the epoch, the output the older one.
\<close>

definition cachedWorld :: demo where
  "cachedWorld =
     demoWorld\<lparr>d_files :=
       [(''/work/in/a.jpg'', \<lparr>mtime = 1000, st_size = 5000\<rparr>),
        (''/work/out/a-1000w.webp'', \<lparr>mtime = 1500, st_size = 300\<rparr>)]\<rparr>"

definition cachedStore :: ImgxCache where
  "cachedStore =
     [(''in/a.jpg'',
       \<lparr>inputPath = ''/work/in/a.jpg'', inputMtime = 1000, settingsHash = ''f00d'',
        outputFiles = [''/work/out/a-1000w.webp''], timestamp = 1500\<rparr>)]"

definition oldWorld :: demo where
  "oldWorld =
     demoWorld\<lparr>d_files :=
       [(''/work/in/a.jpg'', \<lparr>mtime = - 5000, st_size = 5000\<rparr>),
        (''/work/out/a-1000w.webp'', \<lparr>mtime = - 10000, st_size = 300\<rparr>)]\<rparr>"

section \<open>Notions for stating the properties of the pipeline\<close>

text \<open>Kinds of effect in the log.\<close>

definition isMkdir :: "effect \<Rightarrow> bool" where
  "isMkdir e = (case e of Mkdir p \<Rightarrow> True | ToBuffer j \<Rightarrow> False | WriteFile p d \<Rightarrow> False)"


text \<open>An output file of a cache record that the skip branch can read.\<close>

definition readable :: "'w node \<Rightarrow> 'w \<Rightarrow> path \<Rightarrow> bool" where
  "readable api w p =
     (case stat api p w of
        Inl e \<Rightarrow> False
      | Inr st \<Rightarrow> (case metadataOfFile api p w of Inl e \<Rightarrow> False | Inr md \<Rightarrow> True))"

text \<open>The bookkeeping of a run: everything but the world and the effect log.\<close>

definition books ::
  "'w run \<Rightarrow> ImgxCache \<times> (string \<times> string list) list \<times> (string \<times> string) list
     \<times> (string \<times> string) list \<times> ImageManifest" where
  "books s = (cache s, results s, skippedFiles s, cachedFiles s, manifestMap s)"

text \<open>
  An invariant of \<^verbatim>\<open>cachedFiles\<close>: each entry carries a reason of the skip decision and
  its input is in \<^verbatim>\<open>results\<close>.
\<close>

definition cachedOk :: "'w run \<Rightarrow> bool" where
  "cachedOk s =
     (length (cachedFiles s) \<le> length (results s)
      \<and> list_all (\<lambda>fr. (snd fr = ''cached (up to date)'' \<or> snd fr = ''output newer than input'')
                        \<and> fst fr \<in> set (map fst (results s))) (cachedFiles s))"

text \<open>The entry of \<^verbatim>\<open>skippedFiles\<close> that the \<^verbatim>\<open>catch\<close> of a task pushes.\<close>

definition skippedEntry :: "'w node \<Rightarrow> Ctx \<Rightarrow> path \<times> error \<Rightarrow> string \<times> string" where
  "skippedEntry api c ae =
     (relative api (ctx_input c) (fst ae), if snd ae = [] then ''Unknown error'' else snd ae)"

text \<open>
  Worlds and options for the pipeline: an input in a subdirectory, for a dry run; two
  sizes with a cache record whose second output sharp cannot read; an output directory
  that refuses every write; two inputs of which sharp cannot decode the first; and an
  empty format list with an input that \<^verbatim>\<open>globby\<close> lists and \<^verbatim>\<open>fs.stat\<close> cannot reach.
\<close>

definition dryWorld :: demo where
  "dryWorld =
     demoWorld\<lparr>d_glob := [''/work/in/sub/a.jpg''],
       d_files := [(''/work/in/sub/a.jpg'', \<lparr>mtime = 1000, st_size = 5000\<rparr>)],
       d_dirs := [''/work'', ''/work/in'', ''/work/in/sub'', ''/work/out'']\<rparr>"

definition dryOptions :: ImgxOptions where
  "dryOptions = demoOptions\<lparr>dryRun := Some True\<rparr>"

definition twoSizes :: ImgxOptions where
  "twoSizes = demoOptions\<lparr>sizes := Some [640, 1000]\<rparr>"

definition partialEntry :: CacheEntry where
  "partialEntry =
     \<lparr>inputPath = ''/work/in/a.jpg'', inputMtime = 1000,
      settingsHash = generateSettingsHash demoDigest twoSizes,
      outputFiles = [''/work/out/a-640w.webp'', ''/work/out/a-1000w.webp''],
      timestamp = 1500\<rparr>"

definition partialWorld :: demo where
  "partialWorld =
     demoWorld\<lparr>
       d_files :=
         [(''/work/in/a.jpg'', \<lparr>mtime = 1000, st_size = 5000\<rparr>),
          (''/work/out/a-640w.webp'', \<lparr>mtime = 1500, st_size = 300\<rparr>),
          (''/work/out/a-1000w.webp'', \<lparr>mtime = 1500, st_size = 0\<rparr>)],
       d_meta := [(''/work/out/a-640w.webp'', \<lparr>meta_width = Some 640, meta_height = Some 480\<rparr>)],
       d_cacheFile := Some [(''in/a.jpg'', partialEntry)]\<rparr>"

definition readOnlyWorld :: demo where
  "readOnlyWorld = demoWorld\<lparr>d_readOnly := True\<rparr>"

definition brokenWorld :: demo where
  "brokenWorld =
     demoWorld\<lparr>d_glob := [''/work/in/a.jpg'', ''/work/in/b.jpg''],
       d_files :=
         [(''/work/in/a.jpg'', \<lparr>mtime = 1000, st_size = 5000\<rparr>),
          (''/work/in/b.jpg'', \<lparr>mtime = 1100, st_size = 7000\<rparr>)],
       d_broken := [''/work/in/a.jpg'']\<rparr>"

definition noFormats :: ImgxOptions where
  "noFormats = demoOptions\<lparr>formats := Some []\<rparr>"

definition lockedWorld :: demo where
  "lockedWorld = demoWorld\<lparr>d_files := []\<rparr>"

section \<open>Properties of the skip decision\<close>

lemma scanOutputs_all_exist:
  "list_all (outputExists api w) outputs \<Longrightarrow>
   scanOutputs api w outputs acc = (True, fold max (outputMtimes api w outputs) acc)"
  by (induction outputs arbitrary: acc)
     (auto simp: outputExists_def outputMtimes_def List.map_filter_simps max.commute split: sum.splits)

lemma outputMtimes_length:
  "list_all (outputExists api w) outputs \<Longrightarrow> length (outputMtimes api w outputs) = length outputs"
  by (induction outputs)
     (auto simp: outputExists_def outputMtimes_def List.map_filter_simps split: sum.splits)

lemma fold_max_Max:
  "xs \<noteq> [] \<Longrightarrow> fold max xs (a::int) = max a (Max (set xs))"
  using Max.set_eq_fold [of a xs] by (simp add: Max_insert)

lemma scanOutputs_missing:
  "\<not> list_all (outputExists api w) outputs \<Longrightarrow> fst (scanOutputs api w outputs acc) = False"
  by (induction outputs arbitrary: acc) (auto simp: outputExists_def split: sum.splits)

text \<open>
  Claim C1. When \<open>shouldSkipFile\<close> is called with \<^verbatim>\<open>force\<close> false, the \<^verbatim>\<open>stat\<close> of the input
  succeeds, every expected output exists and the maximum modification time of the
  expected outputs is strictly greater than that of the input, the file is skipped. The
  reason is "cached (up to date)" exactly when the cache holds a record under the key
  \<^verbatim>\<open>path.relative(process.cwd(), inputPath)\<close> whose \<^verbatim>\<open>settingsHash\<close> is the current
  fingerprint, and "output newer than input" in every other case.
\<close>

theorem shouldSkipFile_reason:
  assumes "\<not> forced"
    and "stat api inPath w = Inr inputStats"
    and "list_all (outputExists api w) outputs"
    and "outputs \<noteq> []"
    and "mtime inputStats < Max (set (outputMtimes api w outputs))"
  shows "skip (shouldSkipFile api w inPath outputs hash forced store)
    \<and> (reason (shouldSkipFile api w inPath outputs hash forced store) = Some ''cached (up to date)''
        \<longleftrightarrow> (\<exists>e. map_of store (relative api (cwd api) inPath) = Some e \<and> settingsHash e = hash))
    \<and> (reason (shouldSkipFile api w inPath outputs hash forced store) = Some ''output newer than input''
        \<longleftrightarrow> \<not> (\<exists>e. map_of store (relative api (cwd api) inPath) = Some e \<and> settingsHash e = hash))"
proof -
  have ne: "outputMtimes api w outputs \<noteq> []"
    using outputMtimes_length [OF assms(3)] assms(4) by auto
  have scan: "scanOutputs api w outputs 0 = (True, max 0 (Max (set (outputMtimes api w outputs))))"
    using scanOutputs_all_exist [OF assms(3), of 0] fold_max_Max [OF ne, of 0] by simp
  have newer: "mtime inputStats < max 0 (Max (set (outputMtimes api w outputs)))"
    using assms(5) by simp
  show ?thesis
    using assms(1,2) scan newer
    by (auto simp: shouldSkipFile_def split: option.splits)
qed

text \<open>
  The theorem at an input of modification time 1000 whose one output has time 1500,
  with a cache record of the current fingerprint.
\<close>

theorem shouldSkipFile_reason_witness:
  "skip (shouldSkipFile demoNode cachedWorld ''/work/in/a.jpg'' [''/work/out/a-1000w.webp'']
           ''f00d'' False cachedStore)
   \<and> reason (shouldSkipFile demoNode cachedWorld ''/work/in/a.jpg'' [''/work/out/a-1000w.webp'']
           ''f00d'' False cachedStore)
     = Some ''cached (up to date)''"
  using shouldSkipFile_reason [of False demoNode "''/work/in/a.jpg''" cachedWorld
      "\<lparr>mtime = 1000, st_size = 5000\<rparr>" "[''/work/out/a-1000w.webp'']" "''f00d''" cachedStore]
  by (simp add: demoNode_def cachedWorld_def cachedStore_def demoWorld_def outputExists_def
      outputMtimes_def List.map_filter_simps demoRelative_def)

text \<open>
  The cases in which a file is not skipped: \<^verbatim>\<open>force\<close>, a failing \<^verbatim>\<open>stat\<close> of the input, a
  missing output, and outputs none of which is newer than an input whose modification
  time is not before the epoch.
\<close>

lemma shouldSkipFile_not_skipped:
  assumes "forced \<or> (\<exists>e. stat api inPath w = Inl e) \<or> \<not> list_all (outputExists api w) outputs
     \<or> (\<exists>st. stat api inPath w = Inr st \<and> 0 \<le> mtime st \<and> outputs \<noteq> []
          \<and> Max (set (outputMtimes api w outputs)) \<le> mtime st)"
  shows "\<not> skip (shouldSkipFile api w inPath outputs hash forced store)"
proof (cases "list_all (outputExists api w) outputs \<and> outputs \<noteq> []")
  case True
  then have ne: "outputMtimes api w outputs \<noteq> []"
    using outputMtimes_length [of api w outputs] by auto
  have scan: "scanOutputs api w outputs 0 = (True, max 0 (Max (set (outputMtimes api w outputs))))"
    using scanOutputs_all_exist [of api w outputs 0] fold_max_Max [OF ne, of 0] True by simp
  show ?thesis using assms True scan
    by (auto simp: shouldSkipFile_def split: sum.splits option.splits)
next
  case False
  then show ?thesis
    using assms scanOutputs_missing [of api w outputs 0]
    by (cases "scanOutputs api w outputs 0")
       (auto simp: shouldSkipFile_def split: sum.splits option.splits)
qed

text \<open>
  Claim C2. The result is \<^verbatim>\<open>skip = false\<close> whenever \<^verbatim>\<open>force\<close> is set, the \<^verbatim>\<open>stat\<close> of the
  input fails, an expected output is missing, or the maximum modification time of the
  expected outputs is not strictly greater than that of the input. The code starts the
  maximum at 0, so the last case fails for an input modified before the epoch: here the
  input has time -5000 and its one output the older time -10000, both exist, and the
  file is skipped as "output newer than input".
\<close>

theorem shouldSkipFile_before_epoch:
  "stat demoNode ''/work/in/a.jpg'' oldWorld = Inr \<lparr>mtime = - 5000, st_size = 5000\<rparr>
   \<and> outputMtimes demoNode oldWorld [''/work/out/a-1000w.webp''] = [- 10000]
   \<and> shouldSkipFile demoNode oldWorld ''/work/in/a.jpg'' [''/work/out/a-1000w.webp''] ''f00d'' False []
       = \<lparr>skip = True, reason = Some ''output newer than input''\<rparr>"
  by (simp add: demoNode_def oldWorld_def demoWorld_def outputMtimes_def
      List.map_filter_simps shouldSkipFile_def)

section \<open>Properties of the settings fingerprint\<close>

lemma joinWith_Cons:
  "joinWith sep (x # xs) = x @ (if xs = [] then [] else sep @ joinWith sep xs)"
  by (cases xs) simp_all

lemma joinWith_insert:
  "joinWith sep (pre @ x # post) =
     (if pre = [] then [] else joinWith sep pre @ sep) @ x @
     (if post = [] then [] else sep @ joinWith sep post)"
  by (induction pre) (simp_all add: joinWith_Cons)

lemma joinWith_append:
  "joinWith sep (pre @ post) =
     (if pre = [] then joinWith sep post
      else if post = [] then joinWith sep pre
      else joinWith sep pre @ sep @ joinWith sep post)"
  by (induction pre) (simp_all add: joinWith_Cons)

lemma joinWith_insert_differs:
  "x \<noteq> y \<Longrightarrow> joinWith sep (pre @ x # post) \<noteq> joinWith sep (pre @ y # post)"
  by (simp add: joinWith_insert)

lemma joinWith_insert_longer:
  "x \<noteq> [] \<Longrightarrow> length (joinWith sep (pre @ post)) < length (joinWith sep (pre @ x # post))"
  by (cases pre) (simp_all add: joinWith_insert joinWith_append joinWith_Cons)

lemma map_filter_append:
  "List.map_filter f (xs @ ys) = List.map_filter f xs @ List.map_filter f ys"
  by (simp add: List.map_filter_def)

lemma property_Some: "property (k, Some s) = Some (quoteJSONString k @ '':'' @ s)"
  by (simp add: property_def)

lemma property_None: "property (k, None) = None"
  by (simp add: property_def)

text \<open>
  Changing the serialization of one property, with the properties before and after it
  unchanged, changes the serialization of the object: a property that appears or
  disappears changes the length, one that stays changes the text between the same
  prefix and suffix.
\<close>

lemma stringifyObject_change:
  assumes "v \<noteq> v'"
  shows "stringifyObject (pre @ (k, v) # post) \<noteq> stringifyObject (pre @ (k, v') # post)"
proof -
  have longer: "stringifyObject (pre @ (k, None) # post) \<noteq> stringifyObject (pre @ (k, Some s) # post)"
    for s
  proof -
    have "length (joinWith '','' (List.map_filter property pre @ List.map_filter property post))
        < length (joinWith '','' (List.map_filter property pre
            @ (quoteJSONString k @ '':'' @ s) # List.map_filter property post))"
      by (rule joinWith_insert_longer) simp
    then show ?thesis
      by (auto simp: stringifyObject_def map_filter_append List.map_filter_simps
          property_Some property_None)
  qed
  show ?thesis
  proof (cases v)
    case None
    then obtain s' where "v' = Some s'" using assms by (cases v') auto
    with None longer [of s'] show ?thesis by simp
  next
    case (Some s)
    show ?thesis
    proof (cases v')
      case None
      with Some longer [of s, symmetric] show ?thesis by simp
    next
      case v': (Some s')
      with Some assms have "quoteJSONString k @ '':'' @ s \<noteq> quoteJSONString k @ '':'' @ s'"
        by simp
      from joinWith_insert_differs [OF this] show ?thesis
        using Some v'
        by (simp add: stringifyObject_def map_filter_append List.map_filter_simps property_Some)
    qed
  qed
qed

lemma settingsJSON_sizes:
  "serNumbers v \<noteq> serNumbers (sizes opts) \<Longrightarrow> settingsJSON (opts\<lparr>sizes := v\<rparr>) \<noteq> settingsJSON opts"
  using stringifyObject_change [of "serNumbers v" "serNumbers (sizes opts)"
      "[(''width'', serNumber (width opts)), (''height'', serNumber (height opts))]" "''sizes''"
      "[(''formats'', serFormats (formats opts)), (''suffix'', serString (suffix opts)),
        (''quality'', serNumber (quality opts)), (''effort'', serNumber (effort opts)),
        (''stripMetadata'', serBool (stripMetadata opts)),
        (''withoutEnlargement'', serBool (withoutEnlargement opts))]"]
  by (simp add: settingsJSON_def)

lemma settingsJSON_formats:
  "serFormats v \<noteq> serFormats (formats opts) \<Longrightarrow> settingsJSON (opts\<lparr>formats := v\<rparr>) \<noteq> settingsJSON opts"
  using stringifyObject_change [of "serFormats v" "serFormats (formats opts)"
      "[(''width'', serNumber (width opts)), (''height'', serNumber (height opts)),
        (''sizes'', serNumbers (sizes opts))]" "''formats''"
      "[(''suffix'', serString (suffix opts)),
        (''quality'', serNumber (quality opts)), (''effort'', serNumber (effort opts)),
        (''stripMetadata'', serBool (stripMetadata opts)),
        (''withoutEnlargement'', serBool (withoutEnlargement opts))]"]
  by (simp add: settingsJSON_def)

lemma settingsJSON_suffix:
  "serString v \<noteq> serString (suffix opts) \<Longrightarrow> settingsJSON (opts\<lparr>suffix := v\<rparr>) \<noteq> settingsJSON opts"
  using stringifyObject_change [of "serString v" "serString (suffix opts)"
      "[(''width'', serNumber (width opts)), (''height'', serNumber (height opts)),
        (''sizes'', serNumbers (sizes opts)), (''formats'', serFormats (formats opts))]" "''suffix''"
      "[(''quality'', serNumber (quality opts)), (''effort'', serNumber (effort opts)),
        (''stripMetadata'', serBool (stripMetadata opts)),
        (''withoutEnlargement'', serBool (withoutEnlargement opts))]"]
  by (simp add: settingsJSON_def)

lemma settingsJSON_quality:
  "serNumber v \<noteq> serNumber (quality opts) \<Longrightarrow> settingsJSON (opts\<lparr>quality := v\<rparr>) \<noteq> settingsJSON opts"
  using stringifyObject_change [of "serNumber v" "serNumber (quality opts)"
      "[(''width'', serNumber (width opts)), (''height'', serNumber (height opts)),
        (''sizes'', serNumbers (sizes opts)), (''formats'', serFormats (formats opts)),
        (''suffix'', serString (suffix opts))]" "''quality''"
      "[(''effort'', serNumber (effort opts)), (''stripMetadata'', serBool (stripMetadata opts)),
        (''withoutEnlargement'', serBool (withoutEnlargement opts))]"]
  by (simp add: settingsJSON_def)

lemma settingsJSON_effort:
  "serNumber v \<noteq> serNumber (effort opts) \<Longrightarrow> settingsJSON (opts\<lparr>effort := v\<rparr>) \<noteq> settingsJSON opts"
  using stringifyObject_change [of "serNumber v" "serNumber (effort opts)"
      "[(''width'', serNumber (width opts)), (''height'', serNumber (height opts)),
        (''sizes'', serNumbers (sizes opts)), (''formats'', serFormats (formats opts)),
        (''suffix'', serString (suffix opts)), (''quality'', serNumber (quality opts))]" "''effort''"
      "[(''stripMetadata'', serBool (stripMetadata opts)),
        (''withoutEnlargement'', serBool (withoutEnlargement opts))]"]
  by (simp add: settingsJSON_def)

lemma settingsJSON_stripMetadata:
  "serBool v \<noteq> serBool (stripMetadata opts) \<Longrightarrow>
   settingsJSON (opts\<lparr>stripMetadata := v\<rparr>) \<noteq> settingsJSON opts"
  using stringifyObject_change [of "serBool v" "serBool (stripMetadata opts)"
      "[(''width'', serNumber (width opts)), (''height'', serNumber (height opts)),
        (''sizes'', serNumbers (sizes opts)), (''formats'', serFormats (formats opts)),
        (''suffix'', serString (suffix opts)), (''quality'', serNumber (quality opts)),
        (''effort'', serNumber (effort opts))]" "''stripMetadata''"
      "[(''withoutEnlargement'', serBool (withoutEnlargement opts))]"]
  by (simp add: settingsJSON_def)

lemma settingsJSON_withoutEnlargement:
  "serBool v \<noteq> serBool (withoutEnlargement opts) \<Longrightarrow>
   settingsJSON (opts\<lparr>withoutEnlargement := v\<rparr>) \<noteq> settingsJSON opts"
  using stringifyObject_change [of "serBool v" "serBool (withoutEnlargement opts)"
      "[(''width'', serNumber (width opts)), (''height'', serNumber (height opts)),
        (''sizes'', serNumbers (sizes opts)), (''formats'', serFormats (formats opts)),
        (''suffix'', serString (suffix opts)), (''quality'', serNumber (quality opts)),
        (''effort'', serNumber (effort opts)), (''stripMetadata'', serBool (stripMetadata opts))]"
      "''withoutEnlargement''" "[]"]
  by (simp add: settingsJSON_def)

text \<open>The hexadecimal text of a digest determines the digest.\<close>

lemma hexDigit_inj: "hexDigit n = hexDigit m \<Longrightarrow> n mod 16 = m mod 16"
proof -
  assume h: "hexDigit n = hexDigit m"
  have d: "distinct ''0123456789abcdef''" by simp
  have "n mod 16 < length ''0123456789abcdef''" "m mod 16 < length ''0123456789abcdef''"
    by simp_all
  with h d show ?thesis
    unfolding hexDigit_def by (simp only: nth_eq_iff_index_eq)
qed

lemma hexDigest_nibbles:
  assumes "hexDigest a = hexDigest b" and "j < 40"
  shows "take_bit 4 (drop_bit (4 * j) a) = take_bit 4 (drop_bit (4 * j) b)"
proof -
  from assms(1) have "\<forall>i \<in> set [0..<40].
      hexDigit (unat (drop_bit (4 * (39 - i)) a)) = hexDigit (unat (drop_bit (4 * (39 - i)) b))"
    unfolding hexDigest_def by (simp only: map_eq_conv)
  moreover have "39 - j \<in> set [0..<40]" using assms(2) by simp
  ultimately have "hexDigit (unat (drop_bit (4 * (39 - (39 - j))) a))
      = hexDigit (unat (drop_bit (4 * (39 - (39 - j))) b))" by blast
  moreover have "39 - (39 - j) = j" using assms(2) by simp
  ultimately have "hexDigit (unat (drop_bit (4 * j) a)) = hexDigit (unat (drop_bit (4 * j) b))"
    by (simp only:)
  then have "unat (drop_bit (4 * j) a) mod 16 = unat (drop_bit (4 * j) b) mod 16"
    by (rule hexDigit_inj)
  then have "take_bit 4 (unat (drop_bit (4 * j) a)) = take_bit 4 (unat (drop_bit (4 * j) b))"
    by (simp add: take_bit_eq_mod)
  then have "unat (take_bit 4 (drop_bit (4 * j) a)) = unat (take_bit 4 (drop_bit (4 * j) b))"
    by (simp add: unsigned_take_bit_eq)
  then show ?thesis by (simp only: unsigned_word_eqI)
qed

lemma hexDigest_inj: "hexDigest a = hexDigest b \<Longrightarrow> a = b"
proof (rule bit_word_eqI)
  fix n assume h: "hexDigest a = hexDigest b" and n: "n < LENGTH(160)"
  then have j: "n div 4 < 40" by simp
  have "bit (take_bit 4 (drop_bit (4 * (n div 4)) a)) (n mod 4)
      = bit (take_bit 4 (drop_bit (4 * (n div 4)) b)) (n mod 4)"
    using hexDigest_nibbles [OF h j] by simp
  then show "bit a n = bit b n"
    by (simp add: bit_take_bit_iff bit_drop_bit_eq)
qed

lemma settingsJSON_width:
  "serNumber v \<noteq> serNumber (width opts) \<Longrightarrow> settingsJSON (opts\<lparr>width := v\<rparr>) \<noteq> settingsJSON opts"
  using stringifyObject_change [of "serNumber v" "serNumber (width opts)" "[]" "''width''"
      "[(''height'', serNumber (height opts)), (''sizes'', serNumbers (sizes opts)),
        (''formats'', serFormats (formats opts)), (''suffix'', serString (suffix opts)),
        (''quality'', serNumber (quality opts)), (''effort'', serNumber (effort opts)),
        (''stripMetadata'', serBool (stripMetadata opts)),
        (''withoutEnlargement'', serBool (withoutEnlargement opts))]"]
  by (simp add: settingsJSON_def)

lemma settingsJSON_height:
  "serNumber v \<noteq> serNumber (height opts) \<Longrightarrow> settingsJSON (opts\<lparr>height := v\<rparr>) \<noteq> settingsJSON opts"
  using stringifyObject_change [of "serNumber v" "serNumber (height opts)"
      "[(''width'', serNumber (width opts))]" "''height''"
      "[(''sizes'', serNumbers (sizes opts)),
        (''formats'', serFormats (formats opts)), (''suffix'', serString (suffix opts)),
        (''quality'', serNumber (quality opts)), (''effort'', serNumber (effort opts)),
        (''stripMetadata'', serBool (stripMetadata opts)),
        (''withoutEnlargement'', serBool (withoutEnlargement opts))]"]
  by (simp add: settingsJSON_def)

lemma fingerprint_changes:
  "settingsJSON a \<noteq> settingsJSON b \<Longrightarrow> separates digest a b \<Longrightarrow>
   generateSettingsHash digest a \<noteq> generateSettingsHash digest b"
  unfolding generateSettingsHash_def separates_def using hexDigest_inj by blast

text \<open>
  Claim C3. \<open>generateSettingsHash\<close> depends on exactly the cache-relevant fields. Two option
  records that differ only in \<^verbatim>\<open>input\<close>, \<^verbatim>\<open>output\<close>, \<^verbatim>\<open>concurrency\<close>, \<^verbatim>\<open>sharpCacheFiles\<close>,
  \<^verbatim>\<open>pattern\<close>, \<^verbatim>\<open>verbose\<close>, \<^verbatim>\<open>quiet\<close>, \<^verbatim>\<open>force\<close> or \<^verbatim>\<open>dryRun\<close> have the same fingerprint.
  Changing \<^verbatim>\<open>quality\<close>, \<^verbatim>\<open>effort\<close>, \<^verbatim>\<open>formats\<close>, \<^verbatim>\<open>sizes\<close>, \<^verbatim>\<open>suffix\<close>, \<^verbatim>\<open>stripMetadata\<close> or
  \<^verbatim>\<open>withoutEnlargement\<close> (and also \<^verbatim>\<open>width\<close> or \<^verbatim>\<open>height\<close>) to a value with a different
  serialization changes the fingerprint, for a digest that does not collide on the two
  serialized settings: the serialized text changes, and the hexadecimal text of the
  digest determines the digest.
\<close>

theorem generateSettingsHash_fields:
  "generateSettingsHash digest
     (opts\<lparr>input := i, outputDir := out, concurrency := cc, sharpCacheFiles := sc, pattern := pt,
           verbose := vb, quiet := qt, force := fc, dryRun := dr\<rparr>)
     = generateSettingsHash digest opts
   \<and> (serNumber q \<noteq> serNumber (quality opts) \<and> separates digest (opts\<lparr>quality := q\<rparr>) opts \<longrightarrow>
        generateSettingsHash digest (opts\<lparr>quality := q\<rparr>) \<noteq> generateSettingsHash digest opts)
   \<and> (serNumber e \<noteq> serNumber (effort opts) \<and> separates digest (opts\<lparr>effort := e\<rparr>) opts \<longrightarrow>
        generateSettingsHash digest (opts\<lparr>effort := e\<rparr>) \<noteq> generateSettingsHash digest opts)
   \<and> (serFormats fs \<noteq> serFormats (formats opts) \<and> separates digest (opts\<lparr>formats := fs\<rparr>) opts \<longrightarrow>
        generateSettingsHash digest (opts\<lparr>formats := fs\<rparr>) \<noteq> generateSettingsHash digest opts)
   \<and> (serNumbers szs \<noteq> serNumbers (sizes opts) \<and> separates digest (opts\<lparr>sizes := szs\<rparr>) opts \<longrightarrow>
        generateSettingsHash digest (opts\<lparr>sizes := szs\<rparr>) \<noteq> generateSettingsHash digest opts)
   \<and> (serString sfx \<noteq> serString (suffix opts) \<and> separates digest (opts\<lparr>suffix := sfx\<rparr>) opts \<longrightarrow>
        generateSettingsHash digest (opts\<lparr>suffix := sfx\<rparr>) \<noteq> generateSettingsHash digest opts)
   \<and> (serBool sm \<noteq> serBool (stripMetadata opts) \<and> separates digest (opts\<lparr>stripMetadata := sm\<rparr>) opts \<longrightarrow>
        generateSettingsHash digest (opts\<lparr>stripMetadata := sm\<rparr>) \<noteq> generateSettingsHash digest opts)
   \<and> (serBool we \<noteq> serBool (withoutEnlargement opts)
        \<and> separates digest (opts\<lparr>withoutEnlargement := we\<rparr>) opts \<longrightarrow>
        generateSettingsHash digest (opts\<lparr>withoutEnlargement := we\<rparr>) \<noteq> generateSettingsHash digest opts)
   \<and> (serNumber wd \<noteq> serNumber (width opts) \<and> separates digest (opts\<lparr>width := wd\<rparr>) opts \<longrightarrow>
        generateSettingsHash digest (opts\<lparr>width := wd\<rparr>) \<noteq> generateSettingsHash digest opts)
   \<and> (serNumber ht \<noteq> serNumber (height opts) \<and> separates digest (opts\<lparr>height := ht\<rparr>) opts \<longrightarrow>
        generateSettingsHash digest (opts\<lparr>height := ht\<rparr>) \<noteq> generateSettingsHash digest opts)"
proof -
  have frame: "generateSettingsHash digest
     (opts\<lparr>input := i, outputDir := out, concurrency := cc, sharpCacheFiles := sc, pattern := pt,
           verbose := vb, quiet := qt, force := fc, dryRun := dr\<rparr>)
     = generateSettingsHash digest opts"
    by (simp add: generateSettingsHash_def settingsJSON_def)
  show ?thesis
    using frame
      fingerprint_changes [OF settingsJSON_quality, of q opts digest]
      fingerprint_changes [OF settingsJSON_effort, of e opts digest]
      fingerprint_changes [OF settingsJSON_formats, of fs opts digest]
      fingerprint_changes [OF settingsJSON_sizes, of szs opts digest]
      fingerprint_changes [OF settingsJSON_suffix, of sfx opts digest]
      fingerprint_changes [OF settingsJSON_stripMetadata, of sm opts digest]
      fingerprint_changes [OF settingsJSON_withoutEnlargement, of we opts digest]
      fingerprint_changes [OF settingsJSON_width, of wd opts digest]
      fingerprint_changes [OF settingsJSON_height, of ht opts digest]
    by blast
qed

text \<open>The definitions that the simplifier unfolds to evaluate a serialization.\<close>

lemmas json_defs = settingsJSON_def stringifyObject_def property_def List.map_filter_simps
  serNumber_def serNumbers_def serFormats_def serString_def serBool_def stringifyArray_def
  stringifyBool_def formatName_def quoteJSONString_def quoteChar_def numberToString_def
  decimal.simps hexDigit_def

text \<open>
  The theorem at options with every setting given, each changed in turn, under the
  digest of the platform above.
\<close>

theorem generateSettingsHash_fields_witness:
  "generateSettingsHash demoDigest
     (fullOptions\<lparr>input := ''/srv/in'', outputDir := ''/srv/out'', concurrency := Some 2,
        sharpCacheFiles := Some CacheOff, pattern := Some [''*.png''], verbose := Some True,
        quiet := Some False, force := Some True, dryRun := Some True\<rparr>)
     = generateSettingsHash demoDigest fullOptions
   \<and> generateSettingsHash demoDigest (fullOptions\<lparr>quality := Some 100\<rparr>)
       \<noteq> generateSettingsHash demoDigest fullOptions
   \<and> generateSettingsHash demoDigest (fullOptions\<lparr>effort := Some 10\<rparr>)
       \<noteq> generateSettingsHash demoDigest fullOptions
   \<and> generateSettingsHash demoDigest (fullOptions\<lparr>formats := Some [webp, avif]\<rparr>)
       \<noteq> generateSettingsHash demoDigest fullOptions
   \<and> generateSettingsHash demoDigest (fullOptions\<lparr>sizes := Some [640, 1000]\<rparr>)
       \<noteq> generateSettingsHash demoDigest fullOptions
   \<and> generateSettingsHash demoDigest (fullOptions\<lparr>suffix := Some ''{w}px''\<rparr>)
       \<noteq> generateSettingsHash demoDigest fullOptions
   \<and> generateSettingsHash demoDigest (fullOptions\<lparr>stripMetadata := Some False\<rparr>)
       \<noteq> generateSettingsHash demoDigest fullOptions
   \<and> generateSettingsHash demoDigest (fullOptions\<lparr>withoutEnlargement := Some False\<rparr>)
       \<noteq> generateSettingsHash demoDigest fullOptions
   \<and> generateSettingsHash demoDigest (fullOptions\<lparr>width := Some 800\<rparr>)
       \<noteq> generateSettingsHash demoDigest fullOptions
   \<and> generateSettingsHash demoDigest (fullOptions\<lparr>height := Some 1200\<rparr>)
       \<noteq> generateSettingsHash demoDigest fullOptions"
proof -
  have q: "serNumber (Some 100) \<noteq> serNumber (quality fullOptions)"
    by (simp add: fullOptions_def serNumber_def numberToString_def decimal.simps hexDigit_def)
  have e: "serNumber (Some 10) \<noteq> serNumber (effort fullOptions)"
    by (simp add: fullOptions_def serNumber_def numberToString_def decimal.simps hexDigit_def)
  have fs: "serFormats (Some [webp, avif]) \<noteq> serFormats (formats fullOptions)"
    by (simp add: fullOptions_def serFormats_def stringifyArray_def)
  have szs: "serNumbers (Some [640, 1000]) \<noteq> serNumbers (sizes fullOptions)"
    by (simp add: fullOptions_def serNumbers_def stringifyArray_def)
  have sfx: "serString (Some ''{w}px'') \<noteq> serString (suffix fullOptions)"
    by (simp add: fullOptions_def serString_def quoteJSONString_def quoteChar_def)
  have sm: "serBool (Some False) \<noteq> serBool (stripMetadata fullOptions)"
    by (simp add: fullOptions_def serBool_def stringifyBool_def)
  have we: "serBool (Some False) \<noteq> serBool (withoutEnlargement fullOptions)"
    by (simp add: fullOptions_def serBool_def stringifyBool_def)
  have wd: "serNumber (Some 800) \<noteq> serNumber (width fullOptions)"
    by (simp add: fullOptions_def serNumber_def numberToString_def decimal.simps hexDigit_def)
  have ht: "serNumber (Some 1200) \<noteq> serNumber (height fullOptions)"
    by (simp add: fullOptions_def serNumber_def numberToString_def decimal.simps hexDigit_def)
  have q': "separates demoDigest (fullOptions\<lparr>quality := Some 100\<rparr>) fullOptions"
    unfolding separates_def demoDigest_def
    by (simp add: fullOptions_def demoOptions_def json_defs)
  have e': "separates demoDigest (fullOptions\<lparr>effort := Some 10\<rparr>) fullOptions"
    unfolding separates_def demoDigest_def
    by (simp add: fullOptions_def demoOptions_def json_defs)
  have fs': "separates demoDigest (fullOptions\<lparr>formats := Some [webp, avif]\<rparr>) fullOptions"
    unfolding separates_def demoDigest_def
    by (simp add: fullOptions_def demoOptions_def json_defs)
  have szs': "separates demoDigest (fullOptions\<lparr>sizes := Some [640, 1000]\<rparr>) fullOptions"
    unfolding separates_def demoDigest_def
    by (simp add: fullOptions_def demoOptions_def json_defs)
  have sfx': "separates demoDigest (fullOptions\<lparr>suffix := Some ''{w}px''\<rparr>) fullOptions"
    unfolding separates_def demoDigest_def
    by (simp add: fullOptions_def demoOptions_def json_defs)
  have sm': "separates demoDigest (fullOptions\<lparr>stripMetadata := Some False\<rparr>) fullOptions"
    unfolding separates_def demoDigest_def
    by (simp add: fullOptions_def demoOptions_def json_defs)
  have we': "separates demoDigest (fullOptions\<lparr>withoutEnlargement := Some False\<rparr>) fullOptions"
    unfolding separates_def demoDigest_def
    by (simp add: fullOptions_def demoOptions_def json_defs)
  have wd': "separates demoDigest (fullOptions\<lparr>width := Some 800\<rparr>) fullOptions"
    unfolding separates_def demoDigest_def
    by (simp add: fullOptions_def demoOptions_def json_defs)
  have ht': "separates demoDigest (fullOptions\<lparr>height := Some 1200\<rparr>) fullOptions"
    unfolding separates_def demoDigest_def
    by (simp add: fullOptions_def demoOptions_def json_defs)
  from q e fs szs sfx sm we wd ht q' e' fs' szs' sfx' sm' we' wd' ht'
    generateSettingsHash_fields [where digest = demoDigest and opts = fullOptions
      and i = "''/srv/in''" and out = "''/srv/out''" and cc = "Some 2" and sc = "Some CacheOff"
      and pt = "Some [''*.png'']" and vb = "Some True" and qt = "Some False" and fc = "Some True"
      and dr = "Some True" and q = "Some 100" and e = "Some 10" and fs = "Some [webp, avif]"
      and szs = "Some [640, 1000]" and sfx = "Some ''{w}px''" and sm = "Some False"
      and we = "Some False" and wd = "Some 800" and ht = "Some 1200"]
  show ?thesis by blast
qed

section \<open>Properties of the pipeline\<close>

text \<open>The loops of the process branch change the world and the log only.\<close>

lemma books_doMkdir: "books (snd (doMkdir api p s)) = books s"
  by (simp add: doMkdir_def books_def split: prod.splits)

lemma books_doWriteFile: "books (snd (doWriteFile api p d s)) = books s"
  by (simp add: doWriteFile_def books_def split: prod.splits)

lemma books_doToBuffer: "books (snd (doToBuffer api j s)) = books s"
  by (simp add: doToBuffer_def books_def)

lemma books_doMkdirD: "doMkdir api p s = (r, s1) \<Longrightarrow> books s1 = books s"
  using books_doMkdir [of api p s] by simp

lemma books_doWriteFileD: "doWriteFile api p d s = (r, s1) \<Longrightarrow> books s1 = books s"
  using books_doWriteFile [of api p d s] by simp

lemma books_doToBufferD: "doToBuffer api j s = (r, s1) \<Longrightarrow> books s1 = books s"
  using books_doToBuffer [of api j s] by simp

lemma books_processFormats:
  "books (snd (processFormats api c a rel outBase sz sfx fmts es s)) = books s"
proof (induction fmts arbitrary: es s)
  case Nil
  then show ?case by simp
next
  case (Cons fmt fmts)
  show ?case
    by (auto simp: Let_def Cons.IH split: prod.splits option.splits sum.splits
        dest!: books_doMkdirD books_doToBufferD books_doWriteFileD)
qed

lemma books_processFormatsD:
  "processFormats api c a rel outBase sz sfx fmts es s = (r, s1) \<Longrightarrow> books s1 = books s"
  using books_processFormats [of api c a rel outBase sz sfx fmts es s] by simp

lemma books_processSizes:
  "books (snd (processSizes api c a rel outBase szs es s)) = books s"
proof (induction szs arbitrary: es s)
  case Nil
  then show ?case by simp
next
  case (Cons sz szs)
  show ?case
    by (auto simp: Cons.IH split: prod.splits sum.splits dest!: books_processFormatsD)
qed

lemma books_processSizesD:
  "processSizes api c a rel outBase szs es s = (r, s1) \<Longrightarrow> books s1 = books s"
  using books_processSizes [of api c a rel outBase szs es s] by simp

text \<open>What one \<^verbatim>\<open>try\<close> block does to the arrays and to the manifest.\<close>

lemma processFile_skippedFiles:
  "skippedFiles (snd (processFile api c a s)) = skippedFiles s"
  by (auto simp: processFile_def Let_def books_def split: prod.splits sum.splits
      dest!: books_processSizesD)

lemma processFile_results:
  "results (snd (processFile api c a s)) = results s
   \<or> results (snd (processFile api c a s))
       = results s @ [(relative api (ctx_input c) a, expectedOutputs c (outBaseOf api c a))]"
  by (auto simp: processFile_def Let_def books_def split: prod.splits sum.splits
      dest!: books_processSizesD)

lemma processFile_completed:
  "fst (processFile api c a s) = None \<Longrightarrow>
   results (snd (processFile api c a s))
     = results s @ [(relative api (ctx_input c) a, expectedOutputs c (outBaseOf api c a))]
   \<and> relative api (ctx_input c) a \<in> fst ` set (manifestMap (snd (processFile api c a s)))"
  by (auto simp: processFile_def Let_def books_def dom_update split: prod.splits sum.splits if_splits
      dest!: books_processSizesD)

lemma processFile_manifest_keys:
  "fst ` set (manifestMap s) \<subseteq> fst ` set (manifestMap (snd (processFile api c a s)))"
  by (auto simp: processFile_def Let_def books_def dom_update split: prod.splits sum.splits if_splits
      dest!: books_processSizesD)













lemma dry_doMkdirD:
  "doMkdir api p s = (r, s1) \<Longrightarrow> list_all isMkdir (effects s) \<Longrightarrow> list_all isMkdir (effects s1)"
  by (auto simp: doMkdir_def isMkdir_def split: prod.splits)

lemma dry_processFormats:
  "ctx_dryRun c \<Longrightarrow> list_all isMkdir (effects s) \<Longrightarrow>
   list_all isMkdir (effects (snd (processFormats api c a rel outBase sz sfx fmts es s)))"
proof (induction fmts arbitrary: es s)
  case Nil
  then show ?case by simp
next
  case (Cons fmt fmts)
  then show ?case
    by (auto simp: Let_def split: prod.splits option.splits dest: dry_doMkdirD)
qed

lemma dry_processSizes:
  "ctx_dryRun c \<Longrightarrow> list_all isMkdir (effects s) \<Longrightarrow>
   list_all isMkdir (effects (snd (processSizes api c a rel outBase szs es s)))"
proof (induction szs arbitrary: es s)
  case Nil
  then show ?case by simp
next
  case (Cons sz szs)
  from Cons.prems dry_processFormats [of c s api a rel outBase sz "sizeSuffixOf c sz" "ctx_formats c" es]
  have "list_all isMkdir (effects (snd (processFormats api c a rel outBase sz (sizeSuffixOf c sz)
            (ctx_formats c) es s)))" by simp
  with Cons.IH Cons.prems(1) show ?case
    by (auto split: prod.splits sum.splits)
qed

lemma dry_processFile:
  "ctx_dryRun c \<Longrightarrow> list_all isMkdir (effects s) \<Longrightarrow>
   list_all isMkdir (effects (snd (processFile api c a s)))"
  using dry_processSizes [of c s api a "relative api (ctx_input c) a" "outBaseOf api c a"
      "ctx_sizesToProcess c" "[]"]
  by (auto simp: processFile_def Let_def split: prod.splits sum.splits)

text \<open>The same facts for a task with its \<^verbatim>\<open>catch\<close>, and for the whole list of tasks.\<close>

lemma task_books:
  "results (task api c a s) = results (snd (processFile api c a s))"
  "cachedFiles (task api c a s) = cachedFiles (snd (processFile api c a s))"
  "manifestMap (task api c a s) = manifestMap (snd (processFile api c a s))"
  "effects (task api c a s) = effects (snd (processFile api c a s))"
  by (simp_all add: task_def split: prod.splits option.splits)

lemma task_skippedFiles:
  "skippedFiles (task api c a s) =
     skippedFiles s @ map (skippedEntry api c)
       (case fst (processFile api c a s) of None \<Rightarrow> [] | Some e \<Rightarrow> [(a, e)])"
  using processFile_skippedFiles [of api c a s]
  by (auto simp: task_def skippedEntry_def orString_def split: prod.splits option.splits)


lemma runTasks_skippedFiles:
  "skippedFiles (runTasks api c fs s) = skippedFiles s @ map (skippedEntry api c) (thrown api c fs s)"
  by (induction fs arbitrary: s) (simp_all add: task_skippedFiles)




lemma runTasks_dry:
  "ctx_dryRun c \<Longrightarrow> list_all isMkdir (effects s) \<Longrightarrow>
   list_all isMkdir (effects (runTasks api c fs s))"
  by (induction fs arbitrary: s) (simp_all add: task_books dry_processFile)

lemma runTasks_keeps:
  "set (results s) \<subseteq> set (results (runTasks api c fs s))
   \<and> fst ` set (manifestMap s) \<subseteq> fst ` set (manifestMap (runTasks api c fs s))"
proof (induction fs arbitrary: s)
  case Nil
  then show ?case by simp
next
  case (Cons a fs)
  from processFile_results [of api c a s]
  have r1: "set (results s) \<subseteq> set (results (task api c a s))"
    by (auto simp: task_books)
  from processFile_manifest_keys [of s api c a]
  have m1: "fst ` set (manifestMap s) \<subseteq> fst ` set (manifestMap (task api c a s))"
    by (simp add: task_books)
  from Cons.IH [of "task api c a s"]
  have r2: "set (results (task api c a s)) \<subseteq> set (results (runTasks api c (a # fs) s))"
    and m2: "fst ` set (manifestMap (task api c a s))
              \<subseteq> fst ` set (manifestMap (runTasks api c (a # fs) s))"
    by simp_all
  from subset_trans [OF r1 r2] subset_trans [OF m1 m2] show ?case by (rule conjI)
qed

lemma runTasks_completed:
  assumes "f \<in> set fs" and "f \<notin> fst ` set (thrown api c fs s)"
  shows "(relative api (ctx_input c) f, expectedOutputs c (outBaseOf api c f))
           \<in> set (results (runTasks api c fs s))
         \<and> relative api (ctx_input c) f \<in> fst ` set (manifestMap (runTasks api c fs s))"
  using assms
proof (induction fs arbitrary: s)
  case Nil
  then show ?case by simp
next
  case (Cons a fs)
  show ?case
  proof (cases "f \<in> set fs")
    case True
    with Cons.prems have "f \<notin> fst ` set (thrown api c fs (task api c a s))" by auto
    from Cons.IH [OF True this] show ?thesis by simp
  next
    case False
    with Cons.prems have fa: "f = a" by simp
    with Cons.prems have "fst (processFile api c a s) = None"
      by (cases "fst (processFile api c a s)") auto
    from processFile_completed [OF this]
    have "(relative api (ctx_input c) a, expectedOutputs c (outBaseOf api c a))
            \<in> set (results (task api c a s))
          \<and> relative api (ctx_input c) a \<in> fst ` set (manifestMap (task api c a s))"
      by (simp add: task_books)
    with runTasks_keeps [of "task api c a s" api c fs] fa show ?thesis
      by (simp add: subset_iff)
  qed
qed




lemma start_books:
  "results (imgxStart api opts w) = []" "manifestMap (imgxStart api opts w) = []"
  "skippedFiles (imgxStart api opts w) = []" "cachedFiles (imgxStart api opts w) = []"
  "effects (imgxStart api opts w) = []" "cachedOk (imgxStart api opts w)"
  by (simp_all add: imgxStart_def cachedOk_def)


text \<open>
  A task that throws leaves the cache and \<^verbatim>\<open>cachedFiles\<close> as they were and touches no
  manifest key but its own; and every input of a run is in \<^verbatim>\<open>results\<close> or in
  \<^verbatim>\<open>skippedFiles\<close>.
\<close>

lemma task_failure_frame:
  assumes "fst (processFile api c a s) = Some e"
  shows "cache (task api c a s) = cache s
       \<and> cachedFiles (task api c a s) = cachedFiles s
       \<and> (results (task api c a s) = results s
           \<or> results (task api c a s)
              = results s @ [(relative api (ctx_input c) a, expectedOutputs c (outBaseOf api c a))])
       \<and> (\<forall>r. r \<noteq> relative api (ctx_input c) a \<longrightarrow>
             map_of (manifestMap (task api c a s)) r = map_of (manifestMap s) r)"
  using assms
  by (auto simp: task_def processFile_def Let_def books_def update_conv'
      split: prod.splits sum.splits if_splits option.splits dest!: books_processSizesD)

lemma runTasks_accounted:
  assumes "f \<in> set fs"
  shows "relative api (ctx_input c) f \<in> fst ` set (results (runTasks api c fs s))
       \<or> relative api (ctx_input c) f \<in> fst ` set (skippedFiles (runTasks api c fs s))"
proof (cases "f \<in> fst ` set (thrown api c fs s)")
  case False
  from runTasks_completed [OF assms False] show ?thesis by force
next
  case True
  then obtain e where "(f, e) \<in> set (thrown api c fs s)" by auto
  then have "skippedEntry api c (f, e) \<in> set (skippedFiles (runTasks api c fs s))"
    by (simp add: runTasks_skippedFiles)
  then show ?thesis by (force simp: skippedEntry_def)
qed

text \<open>
  In a dry run \<^verbatim>\<open>imgx\<close> writes no file and runs no codec: every call in its log is an
  \<^verbatim>\<open>fs.mkdir\<close>.
\<close>

lemma imgx_dry_effects:
  assumes "orDefault (dryRun opts) False"
  shows "list_all isMkdir (snd (snd (imgx api opts w)))"
proof -
  have p: "persist api opts s = (None, s)" for s
    using assms by (simp add: persist_def Let_def)
  have c: "ctx_dryRun (imgxContext api opts)"
    using assms by (simp add: imgxContext_def)
  have "list_all isMkdir (effects (runTasks api (imgxContext api opts) found (imgxStart api opts w)))"
    for found
    by (rule runTasks_dry [OF c]) (simp add: start_books)
  then show ?thesis
    by (simp add: imgx_def p split: sum.splits option.splits)
qed

text \<open>
  Runs of the model on the worlds above, shared by the theorems below, and the
  definitions that the simplifier unfolds to evaluate a run.
\<close>

lemmas run_defs = imgx_def enumerate_def persist_def summary_def imgxStart_def imgxContext_def
  loadCache_def saveCache_def cachePathOf_def manifestPathOf_def task_def processFile_def
  outBaseOf_def expectedOutputs_def outPathOf_def sizeSuffixOf_def sharpJob_def doMkdir_def
  doToBuffer_def doWriteFile_def cachedEntry_def shouldSkipFile_def orDefault_def orString_def
  orNumber_def stripExtension_def slashes_def parseInt_def isDigit_def formatName_def
  numberToString_def decimal.simps hexDigit_def demoNode_def demoOptions_def demoWorld_def
  demoRelative_def demoDirname_def demoExtname_def payloadSize_def imgxThrown_def Let_def
  readable_def cachedWorld_def dryWorld_def dryOptions_def twoSizes_def partialWorld_def
  partialEntry_def readOnlyWorld_def brokenWorld_def noFormats_def lockedWorld_def






text \<open>
  Claim C4. A dry run computes the skip decisions and the output paths and writes
  nothing: no output file, no codec call, no cache file, no manifest, the file system
  under the output root unchanged. The code calls \<^verbatim>\<open>fs.mkdir(outDir, {recursive: true})\<close>
  before it tests \<^verbatim>\<open>dryRun\<close>: for an input in a subdirectory whose counterpart under the
  output root does not exist, the dry run creates that directory. Here the run's only
  effect is \<open>Mkdir\<close> of \<^verbatim>\<open>/work/out/sub\<close>, which is in the world after the run and not before.
\<close>

theorem dry_run_creates_directory:
  "snd (snd (imgx demoNode dryOptions dryWorld)) = [Mkdir ''/work/out/sub'']
   \<and> ''/work/out/sub'' \<notin> set (d_dirs dryWorld)
   \<and> ''/work/out/sub'' \<in> set (d_dirs (fst (snd (imgx demoNode dryOptions dryWorld))))"
  by (simp add: run_defs)













text \<open>
  Claim C10. Each enumerated file is accounted for exactly once, in \<^verbatim>\<open>files\<close> or in
  \<^verbatim>\<open>skipped\<close>, so that their lengths add up to \<^verbatim>\<open>totalFound\<close>. The code pushes the input to
  \<^verbatim>\<open>results\<close> before the \<^verbatim>\<open>fs.stat\<close> of the cache update, inside the same \<^verbatim>\<open>try\<close>: when that
  call throws, the input is pushed to \<^verbatim>\<open>skippedFiles\<close> as well. Here \<^verbatim>\<open>formats\<close> is empty, so
  that nothing is encoded, and \<^verbatim>\<open>fs.stat\<close> fails on the one input: it is in both lists,
  and the lengths add up to 2 for 1 file found.
\<close>

theorem input_in_files_and_skipped:
  "fst (imgx demoNode noFormats lockedWorld) =
     Inr \<lparr>processed = 1, files = [(''a.jpg'', [])],
          skipped = [(''a.jpg'', ''ENOENT: no such file or directory'')],
          cached = [], totalFound = 1, manifest = Some [(''a.jpg'', [])]\<rparr>"
  by (simp add: run_defs)

end
